theory Spec2Isabelle
  imports Complex_Main "HOL-Library.Sublist"
begin

section \<open>Data model (providers/base.py)\<close>

text \<open>
  The standard-library values the code handles are modelled by what the code reads of them.
  A \<open>datetime.date\<close> is its three fields, a naive \<open>datetime.time\<close> its four fields, and a
  \<open>datetime.datetime\<close> a date, a time of day and an optional time zone (a \<open>ZoneInfo\<close> with its
  key or a fixed offset from UTC in seconds; \<open>None\<close> for a naive timestamp). Strings are
  ASCII.
\<close>

record date =
  d_year :: nat
  d_month :: nat
  d_day :: nat

record time =
  t_hour :: nat
  t_minute :: nat
  t_second :: nat
  t_microsecond :: nat

datatype tz = ZoneInfo string | FixedOffset int

record datetime =
  date_part :: date
  time_part :: time
  tzinfo :: "tz option"

text \<open>Python compares dates, and naive times, field by field from the most significant one.\<close>

definition date_le :: "date \<Rightarrow> date \<Rightarrow> bool" where
  "date_le a b \<longleftrightarrow>
     d_year a < d_year b \<or>
     (d_year a = d_year b \<and>
       (d_month a < d_month b \<or> (d_month a = d_month b \<and> d_day a \<le> d_day b)))"

definition time_le :: "time \<Rightarrow> time \<Rightarrow> bool" where
  "time_le a b \<longleftrightarrow>
     t_hour a < t_hour b \<or>
     (t_hour a = t_hour b \<and>
       (t_minute a < t_minute b \<or>
        (t_minute a = t_minute b \<and>
          (t_second a < t_second b \<or>
           (t_second a = t_second b \<and> t_microsecond a \<le> t_microsecond b)))))"

text \<open>
  \<open>date(y, m, d)\<close>, \<open>time(h, mi)\<close> and \<open>datetime(y, m, d, h, mi)\<close> on fields that are in
  range; seconds and microseconds default to zero and the timestamp is naive.
\<close>

definition mk_date :: "nat \<Rightarrow> nat \<Rightarrow> nat \<Rightarrow> date" where
  "mk_date y m d = \<lparr>d_year = y, d_month = m, d_day = d\<rparr>"

definition mk_time :: "nat \<Rightarrow> nat \<Rightarrow> time" where
  "mk_time h mi = \<lparr>t_hour = h, t_minute = mi, t_second = 0, t_microsecond = 0\<rparr>"

definition naive_datetime :: "nat \<Rightarrow> nat \<Rightarrow> nat \<Rightarrow> nat \<Rightarrow> nat \<Rightarrow> datetime" where
  "naive_datetime y m d h mi = \<lparr>date_part = mk_date y m d, time_part = mk_time h mi, tzinfo = None\<rparr>"

text \<open>
  The difference of two naive timestamps, as \<open>datetime.__sub__\<close> computes it: the proleptic
  Gregorian ordinals of the two dates (\<open>_ymd2ord\<close>) and the times of day, here in microseconds.
\<close>

definition is_leap :: "nat \<Rightarrow> bool" where
  "is_leap y \<longleftrightarrow> y mod 4 = 0 \<and> (y mod 100 \<noteq> 0 \<or> y mod 400 = 0)"

definition days_before_year :: "nat \<Rightarrow> int" where
  "days_before_year year =
     (let y = int year - 1 in y * 365 + y div 4 - y div 100 + y div 400)"

definition days_before_month :: "nat \<Rightarrow> nat \<Rightarrow> int" where
  "days_before_month year month =
     sum_list (take (month - 1) [31, 28, 31, 30, 31, 30, 31, 31, 30, 31, 30, 31]) +
     (if month > 2 \<and> is_leap year then 1 else 0)"

definition ymd2ord :: "date \<Rightarrow> int" where
  "ymd2ord d = days_before_year (d_year d) + days_before_month (d_year d) (d_month d) + int (d_day d)"

definition naive_us :: "datetime \<Rightarrow> int" where
  "naive_us dt =
     (let t = time_part dt
      in ((ymd2ord (date_part dt) * 86400 +
           int (t_hour t) * 3600 + int (t_minute t) * 60 + int (t_second t)) * 1000000 +
          int (t_microsecond t)))"

definition timedelta_us :: "datetime \<Rightarrow> datetime \<Rightarrow> int" where
  "timedelta_us a b = naive_us a - naive_us b"

text \<open>
  A Python \<open>float\<close> is a finite value, an infinity or NaN. The code only compares prices
  (\<open><=\<close> in the filter, \<open><\<close> in the sort), and a comparison of two doubles is exact, so a
  finite double is represented by its value.
\<close>

datatype pyfloat = Finite rat | PosInf | NegInf | NaN

fun float_le :: "pyfloat \<Rightarrow> pyfloat \<Rightarrow> bool" where
  "float_le NaN _ = False"
| "float_le _ NaN = False"
| "float_le NegInf _ = True"
| "float_le _ PosInf = True"
| "float_le PosInf _ = False"
| "float_le _ NegInf = False"
| "float_le (Finite a) (Finite b) = (a \<le> b)"

fun float_lt :: "pyfloat \<Rightarrow> pyfloat \<Rightarrow> bool" where
  "float_lt NaN _ = False"
| "float_lt _ NaN = False"
| "float_lt PosInf _ = False"
| "float_lt _ NegInf = False"
| "float_lt NegInf _ = True"
| "float_lt _ PosInf = True"
| "float_lt (Finite a) (Finite b) = (a < b)"

record FlightSegment =
  from_airport :: string
  to_airport :: string
  dep_time_local :: datetime
  arr_time_local :: datetime
  duration_minutes :: int
  flight_number :: string
  airline_code :: string

record Flight =
  price_total :: pyfloat
  currency :: string
  airline_codes :: "string list"
  itinerary :: "FlightSegment list"
  booking_link :: "string option"

text \<open>
  \<open>FlightSegment.__post_init__\<close> attaches the zone Europe/Oslo to a naive departure or
  arrival timestamp and leaves an aware one as it is.
\<close>

definition ensure_tz :: "datetime \<Rightarrow> datetime" where
  "ensure_tz dt = (if tzinfo dt = None then dt\<lparr>tzinfo := Some (ZoneInfo ''Europe/Oslo'')\<rparr> else dt)"

definition FlightSegment_init ::
  "string \<Rightarrow> string \<Rightarrow> datetime \<Rightarrow> datetime \<Rightarrow> int \<Rightarrow> string \<Rightarrow> string \<Rightarrow> FlightSegment" where
  "FlightSegment_init fa ta dep arr dur fno ac =
     \<lparr>from_airport = fa, to_airport = ta, dep_time_local = ensure_tz dep,
      arr_time_local = ensure_tz arr, duration_minutes = dur, flight_number = fno,
      airline_code = ac\<rparr>"

text \<open>
  \<open>Flight.__post_init__\<close>: when \<open>airline_codes\<close> is empty and the itinerary is not, the codes
  become \<open>list(set(segment.airline_code for segment in self.itinerary))\<close>. The order in which
  Python lists a set of strings depends on the interpreter's string hashing, so the
  enumeration is a parameter \<open>so\<close> of the constructor; \<open>is_set_order\<close> says what every
  enumeration of a set does: it lists each element of the collection once.
\<close>

definition is_set_order :: "(string list \<Rightarrow> string list) \<Rightarrow> bool" where
  "is_set_order so \<longleftrightarrow> (\<forall>xs. distinct (so xs) \<and> set (so xs) = set xs)"

definition Flight_init ::
  "(string list \<Rightarrow> string list) \<Rightarrow> pyfloat \<Rightarrow> string \<Rightarrow> string list \<Rightarrow> FlightSegment list \<Rightarrow>
   string option \<Rightarrow> Flight" where
  "Flight_init so price cur codes itin link =
     \<lparr>price_total = price, currency = cur,
      airline_codes = (if codes = [] \<and> itin \<noteq> [] then so (map airline_code itin) else codes),
      itinerary = itin, booking_link = link\<rparr>"

section \<open>Filtering (travel\_app.py)\<close>

text \<open>\<open>str.upper\<close> on ASCII text.\<close>

definition upper_char :: "char \<Rightarrow> char" where
  "upper_char c =
     (case map_of (zip ''abcdefghijklmnopqrstuvwxyz'' ''ABCDEFGHIJKLMNOPQRSTUVWXYZ'') c of
        None \<Rightarrow> c | Some u \<Rightarrow> u)"

definition upper :: "string \<Rightarrow> string" where
  "upper s = map upper_char s"

text \<open>
  The four tests of \<open>filter_flights\<close>, each as the condition of its list comprehension.
  \<open>f.itinerary and ...\<close> is false on an empty itinerary and otherwise reads the first segment.
\<close>

definition airline_match :: "string list \<Rightarrow> Flight \<Rightarrow> bool" where
  "airline_match airlines f \<longleftrightarrow>
     (let airline_set = set (map upper airlines)
      in list_ex (\<lambda>code. code \<in> airline_set) (airline_codes f))"

definition price_match :: "pyfloat \<Rightarrow> Flight \<Rightarrow> bool" where
  "price_match max_price f \<longleftrightarrow> float_le (price_total f) max_price"

definition time_match :: "time \<times> time \<Rightarrow> Flight \<Rightarrow> bool" where
  "time_match w f \<longleftrightarrow>
     (case w of (start_time, end_time) \<Rightarrow>
        (case itinerary f of
           [] \<Rightarrow> False
         | s # _ \<Rightarrow> time_le start_time (time_part (dep_time_local s)) \<and>
                    time_le (time_part (dep_time_local s)) end_time))"

definition date_match :: "date \<times> date option \<Rightarrow> Flight \<Rightarrow> bool" where
  "date_match ds f \<longleftrightarrow>
     (case ds of (start_date, end_opt) \<Rightarrow>
        (case end_opt of
           Some end_date \<Rightarrow>
             (case itinerary f of
                [] \<Rightarrow> False
              | s # _ \<Rightarrow> date_le start_date (date_part (dep_time_local s)) \<and>
                         date_le (date_part (dep_time_local s)) end_date)
         | None \<Rightarrow>
             (case itinerary f of
                [] \<Rightarrow> False
              | s # _ \<Rightarrow> date_part (dep_time_local s) = start_date)))"

text \<open>
  \<open>if airlines:\<close> skips \<open>None\<close> and the empty list; \<open>if max_price is not None\<close> skips only
  \<open>None\<close>; a pair is always true, so \<open>if dep_time_between:\<close> and \<open>if dates:\<close> skip only
  \<open>None\<close>, and \<open>if end_date:\<close> skips only \<open>None\<close> (a date is always true).
\<close>

definition filter_flights ::
  "Flight list \<Rightarrow> string list option \<Rightarrow> pyfloat option \<Rightarrow> (time \<times> time) option \<Rightarrow>
   (date \<times> date option) option \<Rightarrow> Flight list" where
  "filter_flights flights airlines max_price dep_time_between dates =
     (let filtered = flights;
          filtered = (case airlines of
                        None \<Rightarrow> filtered
                      | Some al \<Rightarrow> if al = [] then filtered
                                   else filter (airline_match al) filtered);
          filtered = (case max_price of
                        None \<Rightarrow> filtered
                      | Some mp \<Rightarrow> filter (price_match mp) filtered);
          filtered = (case dep_time_between of
                        None \<Rightarrow> filtered
                      | Some w \<Rightarrow> filter (time_match w) filtered);
          filtered = (case dates of
                        None \<Rightarrow> filtered
                      | Some ds \<Rightarrow> filter (date_match ds) filtered)
      in filtered)"

section \<open>The test fixture (tests/test\_filters.py)\<close>

text \<open>
  \<open>create_test_flight\<close> builds a one-segment flight. The fixture calls it with naive
  timestamps, whose difference is the difference of their field values; the duration
  \<open>int((arr_time - dep_time).total_seconds() / 60)\<close> truncates towards zero and is computed
  here in exact arithmetic (the fixture's differences are whole minutes).
\<close>

definition trunc_minutes :: "int \<Rightarrow> int" where
  "trunc_minutes us = (if 0 \<le> us then us div 60000000 else - ((- us) div 60000000))"

definition create_test_flight ::
  "(string list \<Rightarrow> string list) \<Rightarrow> pyfloat \<Rightarrow> string \<Rightarrow> string list \<Rightarrow> datetime \<Rightarrow> datetime \<Rightarrow>
   string \<Rightarrow> string \<Rightarrow> Flight" where
  "create_test_flight so price cur codes dep_time arr_time fa ta =
     (let segment = FlightSegment_init fa ta
                      (dep_time\<lparr>tzinfo := Some (ZoneInfo ''Europe/Oslo'')\<rparr>)
                      (arr_time\<lparr>tzinfo := Some (ZoneInfo ''Europe/Oslo'')\<rparr>)
                      (trunc_minutes (timedelta_us arr_time dep_time))
                      ''TEST123''
                      (case codes of [] \<Rightarrow> ''XX'' | c # _ \<Rightarrow> c)
      in Flight_init so price cur codes [segment] None)"

definition sample_flights :: "(string list \<Rightarrow> string list) \<Rightarrow> Flight list" where
  "sample_flights so =
     [create_test_flight so (Finite 8950) ''NOK'' [''QR'']
        (naive_datetime 2025 12 10 7 30) (naive_datetime 2025 12 11 17 30) ''OSL'' ''PER'',
      create_test_flight so (Finite 11200) ''NOK'' [''EK'']
        (naive_datetime 2025 12 10 9 15) (naive_datetime 2025 12 11 17 15) ''OSL'' ''PER'',
      create_test_flight so (Finite 9750) ''NOK'' [''SQ'']
        (naive_datetime 2025 12 10 6 45) (naive_datetime 2025 12 11 13 30) ''OSL'' ''PER'',
      create_test_flight so (Finite 10800) ''NOK'' [''BA'']
        (naive_datetime 2025 12 10 14 20) (naive_datetime 2025 12 12 3 15) ''OSL'' ''PER'',
      create_test_flight so (Finite 9100) ''NOK'' [''SK'']
        (naive_datetime 2025 12 10 15 45) (naive_datetime 2025 12 11 22 45) ''OSL'' ''PER'',
      create_test_flight so (Finite 8500) ''NOK'' [''QR'']
        (naive_datetime 2025 12 11 8 0) (naive_datetime 2025 12 12 18 0) ''OSL'' ''PER'']"

text \<open>Three segments of two airlines, for the constructor of \<open>Flight\<close>.\<close>

definition example_segments :: "FlightSegment list" where
  "example_segments =
     [FlightSegment_init ''OSL'' ''DOH'' (naive_datetime 2025 12 10 7 30)
        (naive_datetime 2025 12 10 15 0) 390 ''QR 176'' ''QR'',
      FlightSegment_init ''DOH'' ''DXB'' (naive_datetime 2025 12 10 17 0)
        (naive_datetime 2025 12 10 18 10) 70 ''EK 12'' ''EK'',
      FlightSegment_init ''DXB'' ''PER'' (naive_datetime 2025 12 10 20 0)
        (naive_datetime 2025 12 11 11 30) 690 ''QR 900'' ''QR'']"

text \<open>The conjunction of the active tests, for stating what the pipeline of filters keeps.\<close>

definition keeps ::
  "string list option \<Rightarrow> pyfloat option \<Rightarrow> (time \<times> time) option \<Rightarrow> (date \<times> date option) option \<Rightarrow>
   Flight \<Rightarrow> bool" where
  "keeps airlines max_price dep_time_between dates f \<longleftrightarrow>
     (case airlines of None \<Rightarrow> True | Some al \<Rightarrow> al = [] \<or> airline_match al f) \<and>
     (case max_price of None \<Rightarrow> True | Some mp \<Rightarrow> price_match mp f) \<and>
     (case dep_time_between of None \<Rightarrow> True | Some w \<Rightarrow> time_match w f) \<and>
     (case dates of None \<Rightarrow> True | Some ds \<Rightarrow> date_match ds f)"

text \<open>A flight that carries the codes QR and EK, with no segments.\<close>

definition qr_ek_flight :: Flight where
  "qr_ek_flight =
     \<lparr>price_total = Finite 9000, currency = ''NOK'', airline_codes = [''QR'', ''EK''],
      itinerary = [], booking_link = None\<rparr>"

section \<open>Exceptions\<close>

text \<open>
  The exceptions the modelled code raises or catches. \<open>Exit n\<close> is \<open>typer.Exit(n)\<close>;
  \<open>ProviderException\<close> stands for any exception of a live provider's request.
\<close>

datatype exn = ValueError | OverflowError | TypeError | NotImplementedError
  | ProviderException | Exit int

section \<open>Sorting (display\_flights)\<close>

text \<open>
  \<open>datetime.__lt__\<close>. Two naive timestamps, two timestamps of the same zone and two aware
  timestamps with equal offsets from UTC are compared field by field; two aware timestamps
  with different offsets are compared as instants; a naive and an aware timestamp cannot be
  ordered and the comparison raises \<open>TypeError\<close>. The offset of a \<open>ZoneInfo\<close> at a local
  time comes from the time zone database, the parameter \<open>zi\<close> (in seconds).
\<close>

definition datetime_fields_lt :: "datetime \<Rightarrow> datetime \<Rightarrow> bool" where
  "datetime_fields_lt a b \<longleftrightarrow>
     (date_le (date_part a) (date_part b) \<and> date_part a \<noteq> date_part b) \<or>
     (date_part a = date_part b \<and>
      time_le (time_part a) (time_part b) \<and> time_part a \<noteq> time_part b)"

definition utcoffset :: "(string \<Rightarrow> datetime \<Rightarrow> int) \<Rightarrow> tz \<Rightarrow> datetime \<Rightarrow> int" where
  "utcoffset zi z dt = (case z of FixedOffset n \<Rightarrow> n | ZoneInfo k \<Rightarrow> zi k dt)"

definition datetime_lt :: "(string \<Rightarrow> datetime \<Rightarrow> int) \<Rightarrow> datetime \<Rightarrow> datetime \<Rightarrow> exn + bool" where
  "datetime_lt zi a b =
     (case tzinfo a of
        None \<Rightarrow> (case tzinfo b of
                   None \<Rightarrow> Inr (datetime_fields_lt a b)
                 | Some zb \<Rightarrow> Inl TypeError)
      | Some za \<Rightarrow> (case tzinfo b of
                   None \<Rightarrow> Inl TypeError
                 | Some zb \<Rightarrow>
                     (let myoff = utcoffset zi za a; otoff = utcoffset zi zb b
                      in if za = zb \<or> myoff = otoff then Inr (datetime_fields_lt a b)
                         else Inr (naive_us a - myoff * 1000000 < naive_us b - otoff * 1000000))))"

text \<open>\<open>datetime.min\<close> is the naive timestamp 0001-01-01 00:00.\<close>

definition datetime_min :: datetime where
  "datetime_min = naive_datetime 1 1 1 0 0"

definition is_naive :: "datetime \<Rightarrow> bool" where
  "is_naive dt \<longleftrightarrow> tzinfo dt = None"

text \<open>
  \<open>list.sort(key=...)\<close> computes the key of every element, orders the elements by their keys
  with \<open><\<close> alone, keeps elements with equal keys in their order, and lets an exception of
  a comparison escape. It is modelled by an insertion sort with these properties: each element
  in turn is put into the sorted prefix before the first element whose key is greater. On a
  list of two elements both make the one comparison \<open>key(second) < key(first)\<close>.
\<close>

fun insort_lt :: "('k \<Rightarrow> 'k \<Rightarrow> exn + bool) \<Rightarrow> 'k \<times> 'a \<Rightarrow> ('k \<times> 'a) list \<Rightarrow> exn + ('k \<times> 'a) list" where
  "insort_lt lt x [] = Inr [x]"
| "insort_lt lt x (y # ys) =
     (case lt (fst x) (fst y) of
        Inl e \<Rightarrow> Inl e
      | Inr True \<Rightarrow> Inr (x # y # ys)
      | Inr False \<Rightarrow> (case insort_lt lt x ys of Inl e \<Rightarrow> Inl e | Inr zs \<Rightarrow> Inr (y # zs)))"

fun sort_keyed :: "('k \<Rightarrow> 'k \<Rightarrow> exn + bool) \<Rightarrow> ('k \<times> 'a) list \<Rightarrow> ('k \<times> 'a) list \<Rightarrow> exn + ('k \<times> 'a) list" where
  "sort_keyed lt done [] = Inr done"
| "sort_keyed lt done (x # xs) =
     (case insort_lt lt x done of Inl e \<Rightarrow> Inl e | Inr done' \<Rightarrow> sort_keyed lt done' xs)"

definition list_sort :: "('k \<Rightarrow> 'k \<Rightarrow> exn + bool) \<Rightarrow> ('a \<Rightarrow> 'k) \<Rightarrow> 'a list \<Rightarrow> exn + 'a list" where
  "list_sort lt key xs =
     (case sort_keyed lt [] (map (\<lambda>x. (key x, x)) xs) of
        Inl e \<Rightarrow> Inl e
      | Inr ps \<Rightarrow> Inr (map snd ps))"

text \<open>
  The sorting step of \<open>display_flights\<close>: the list as the in-place sort leaves it, or the
  exception that escapes. An empty list returns before sorting, an unknown key sorts nothing.
\<close>

definition departure_key :: "Flight \<Rightarrow> datetime" where
  "departure_key f = (case itinerary f of [] \<Rightarrow> datetime_min | s # _ \<Rightarrow> dep_time_local s)"

definition display_flights_sort ::
  "(string \<Rightarrow> datetime \<Rightarrow> int) \<Rightarrow> Flight list \<Rightarrow> string \<Rightarrow> exn + Flight list" where
  "display_flights_sort zi flights sort_by =
     (if flights = [] then Inr flights
      else if sort_by = ''price'' then
        list_sort (\<lambda>a b. Inr (float_lt a b)) price_total flights
      else if sort_by = ''duration'' then
        list_sort (\<lambda>a b. Inr (a < b)) (\<lambda>f. sum_list (map duration_minutes (itinerary f))) flights
      else if sort_by = ''departure'' then
        list_sort (datetime_lt zi) departure_key flights
      else Inr flights)"

text \<open>A flight without segments, and the list of it after the first flight of the fixture.\<close>

definition no_segment_flight :: Flight where
  "no_segment_flight =
     \<lparr>price_total = Finite 7000, currency = ''NOK'', airline_codes = [''QR''],
      itinerary = [], booking_link = None\<rparr>"

definition mixed_flights :: "Flight list" where
  "mixed_flights =
     [create_test_flight remdups (Finite 8950) ''NOK'' [''QR'']
        (naive_datetime 2025 12 10 7 30) (naive_datetime 2025 12 11 17 30) ''OSL'' ''PER'',
      no_segment_flight]"

section \<open>Provider selection and the search command (travel\_app.py)\<close>

text \<open>
  The process environment is a map from variable names to values. \<open>PROVIDER_NAME\<close> is
  \<open>os.getenv("PROVIDER", "MOCK").upper()\<close>; \<open>api_key env v\<close> is the value of \<open>os.getenv(v)\<close>
  when it is true, that is set and not empty.
\<close>

type_synonym environ = "string \<Rightarrow> string option"

datatype provider = MockProvider | KiwiProvider string | AmadeusProvider string
  | SkyscannerProvider string

definition PROVIDER_NAME :: "environ \<Rightarrow> string" where
  "PROVIDER_NAME env = upper (case env ''PROVIDER'' of None \<Rightarrow> ''MOCK'' | Some v \<Rightarrow> v)"

definition api_key :: "environ \<Rightarrow> string \<Rightarrow> string option" where
  "api_key env v = (case env v of None \<Rightarrow> None | Some k \<Rightarrow> if k = [] then None else Some k)"

definition fallback_warning :: "string \<Rightarrow> string" where
  "fallback_warning name =
     ''WARNING: No API key found for '' @ name @ '', falling back to MOCK provider''"

text \<open>\<open>get_provider\<close> returns the provider and the warning it writes to standard error, if any.\<close>

definition get_provider :: "environ \<Rightarrow> provider \<times> string option" where
  "get_provider env =
     (let name = PROVIDER_NAME env
      in case (if name = ''KIWI'' then api_key env ''KIWI_API_KEY'' else None) of
           Some k \<Rightarrow> (KiwiProvider k, None)
         | None \<Rightarrow>
        (case (if name = ''AMADEUS'' then api_key env ''AMADEUS_API_KEY'' else None) of
           Some k \<Rightarrow> (AmadeusProvider k, None)
         | None \<Rightarrow>
        (case (if name = ''SKYSCANNER'' then api_key env ''SKYSCANNER_API_KEY'' else None) of
           Some k \<Rightarrow> (SkyscannerProvider k, None)
         | None \<Rightarrow>
             (MockProvider,
              if name = ''MOCK'' then None else Some (fallback_warning name)))))"

text \<open>
  \<open>search_flights\<close> of the four providers. What the mock data file and the Kiwi service
  answer is outside the program: \<open>mock_search\<close> and \<open>kiwi_search\<close> give the result of the
  call, a list of flights or the exception raised. The Amadeus and Skyscanner providers are
  stubs whose \<open>search_flights\<close> raises \<open>NotImplementedError\<close>.
\<close>

record backend =
  mock_search :: "exn + Flight list"
  kiwi_search :: "string \<Rightarrow> exn + Flight list"

fun search_flights :: "backend \<Rightarrow> provider \<Rightarrow> exn + Flight list" where
  "search_flights bk MockProvider = mock_search bk"
| "search_flights bk (KiwiProvider k) = kiwi_search bk k"
| "search_flights bk (AmadeusProvider k) = Inl NotImplementedError"
| "search_flights bk (SkyscannerProvider k) = Inl NotImplementedError"

text \<open>
  The \<open>try\<close> block of \<open>search\<close> for a given provider: search, filter, sort for display. Every
  exception raised inside is caught by \<open>except Exception\<close>, reported, and turned into
  \<open>typer.Exit(1)\<close>.
\<close>

definition run_search ::
  "(string \<Rightarrow> datetime \<Rightarrow> int) \<Rightarrow> backend \<Rightarrow> provider \<Rightarrow> string list option \<Rightarrow> pyfloat option \<Rightarrow>
   (time \<times> time) option \<Rightarrow> date \<times> date option \<Rightarrow> string \<Rightarrow> exn + Flight list" where
  "run_search zi bk provider airlines max_price time_window dates sort_by =
     (case search_flights bk provider of
        Inl e \<Rightarrow> Inl (Exit 1)
      | Inr flights \<Rightarrow>
          (let filtered_flights =
                 filter_flights flights airlines max_price time_window (Some dates)
           in case display_flights_sort zi filtered_flights sort_by of
                Inl e \<Rightarrow> Inl (Exit 1)
              | Inr shown \<Rightarrow> Inr shown))"

text \<open>
  \<open>search\<close> from the selection of the provider on, its options already parsed: the warning
  of the selection, and the flights displayed or the exit of the command.
\<close>

definition search ::
  "(string \<Rightarrow> datetime \<Rightarrow> int) \<Rightarrow> backend \<Rightarrow> environ \<Rightarrow> string list option \<Rightarrow> pyfloat option \<Rightarrow>
   (time \<times> time) option \<Rightarrow> date \<times> date option \<Rightarrow> string \<Rightarrow> string option \<times> (exn + Flight list)" where
  "search zi bk env airlines max_price time_window dates sort_by =
     (case get_provider env of
        (provider, warning) \<Rightarrow>
          (warning, run_search zi bk provider airlines max_price time_window dates sort_by))"

text \<open>Two environments and a backend for concrete runs.\<close>

definition amadeus_env :: environ where
  "amadeus_env = [''PROVIDER'' \<mapsto> ''AMADEUS'', ''AMADEUS_API_KEY'' \<mapsto> ''key'']"

definition kiwi_env_no_key :: environ where
  "kiwi_env_no_key = [''PROVIDER'' \<mapsto> ''kiwi'']"

definition example_backend :: backend where
  "example_backend =
     \<lparr>mock_search = Inr (sample_flights remdups), kiwi_search = (\<lambda>k. Inl ProviderException)\<rparr>"

section \<open>Parsing (travel\_app.py, app\_streamlit\_new.py)\<close>


text \<open>
  \<open>int(s)\<close> on an ASCII string, as the interpreter reads a decimal literal: white space
  around it, one optional sign, then digits, where single underscores may stand between
  digits. A text that is not of this form raises \<open>ValueError\<close>. So does a literal with more
  digits than the interpreter's limit \<open>maxd\<close> (\<open>sys.get_int_max_str_digits()\<close>: 4300 by
  default, 0 for no limit or an interpreter without one); the limit is only looked at above
  640 digits.
\<close>

definition is_digit :: "char \<Rightarrow> bool" where
  "is_digit c \<longleftrightarrow> c \<in> set ''0123456789''"

definition is_space :: "char \<Rightarrow> bool" where
  "is_space c \<longleftrightarrow> c \<in> set [CHR 0x09, CHR 0x0A, CHR 0x0B, CHR 0x0C, CHR 0x0D, CHR '' '']"

definition digit_val :: "char \<Rightarrow> nat" where
  "digit_val c =
     (case map_of (zip ''0123456789'' [0, 1, 2, 3, 4, 5, 6, 7, 8, 9]) c of
        None \<Rightarrow> 0 | Some d \<Rightarrow> d)"

definition digits_value :: "string \<Rightarrow> nat" where
  "digits_value ds = foldl (\<lambda>a c. 10 * a + digit_val c) 0 ds"

fun body_ok :: "string \<Rightarrow> bool" where
  "body_ok [] = False"
| "body_ok [c] = is_digit c"
| "body_ok (c # d # cs) =
     (is_digit c \<and> (if d = CHR ''_'' then body_ok cs else body_ok (d # cs)))"

definition py_int :: "nat \<Rightarrow> string \<Rightarrow> exn + int" where
  "py_int maxd s =
     (let s1 = dropWhile is_space s;
          neg = (case s1 of [] \<Rightarrow> False | c # _ \<Rightarrow> c = CHR ''-'');
          s2 = (case s1 of [] \<Rightarrow> [] | c # r \<Rightarrow> if c = CHR ''+'' \<or> c = CHR ''-'' then r else s1);
          body = takeWhile (\<lambda>c. is_digit c \<or> c = CHR ''_'') s2;
          rest = dropWhile is_space (dropWhile (\<lambda>c. is_digit c \<or> c = CHR ''_'') s2);
          digits = filter is_digit body
      in if body_ok body \<and> rest = [] then
           (if 640 < length digits \<and> 0 < maxd \<and> maxd < length digits then Inl ValueError
            else Inr ((if neg then - 1 else 1) * int (digits_value digits)))
         else Inl ValueError)"

text \<open>
  \<open>time(hour, minute)\<close>: an argument that does not fit a C \<open>int\<close> raises \<open>OverflowError\<close>, and
  an hour outside 0..23 or a minute outside 0..59 raises \<open>ValueError\<close>.
\<close>

definition c_int_ok :: "int \<Rightarrow> bool" where
  "c_int_ok n \<longleftrightarrow> - 2147483648 \<le> n \<and> n \<le> 2147483647"

definition py_time :: "int \<Rightarrow> int \<Rightarrow> exn + time" where
  "py_time h mi =
     (if c_int_ok h \<and> c_int_ok mi then
        (if 0 \<le> h \<and> h \<le> 23 \<and> 0 \<le> mi \<and> mi \<le> 59 then Inr (mk_time (nat h) (nat mi))
         else Inl ValueError)
      else Inl OverflowError)"




section \<open>Filtering with objects and references\<close>

text \<open>
  In Python a list holds references to its elements, and \<open>filter_flights\<close> receives a
  reference to the list. To say what the function does to the objects it is given, the same
  code is read over a heap: flight objects and list objects at addresses, and a counter of the
  next free address. \<open>filtered = flights\<close> copies the reference. A list comprehension reads
  the list behind \<open>filtered\<close>, reads fields of the flights it refers to, and allocates a new
  list of the references that pass; the code contains no assignment to a field of a flight
  and no assignment to or method call on a list.
\<close>

type_synonym ref = nat

record heap =
  flight_objs :: "ref \<Rightarrow> Flight option"
  list_objs :: "ref \<Rightarrow> ref list option"
  next_ref :: ref

text \<open>In a well-formed heap no list lives at or beyond the next free address.\<close>

definition heap_ok :: "heap \<Rightarrow> bool" where
  "heap_ok h \<longleftrightarrow> (\<forall>a. next_ref h \<le> a \<longrightarrow> list_objs h a = None)"

definition new_list :: "heap \<Rightarrow> ref list \<Rightarrow> heap \<times> ref" where
  "new_list h rs =
     (h\<lparr>list_objs := (list_objs h)(next_ref h \<mapsto> rs), next_ref := Suc (next_ref h)\<rparr>,
      next_ref h)"

definition holds :: "heap \<Rightarrow> (Flight \<Rightarrow> bool) \<Rightarrow> ref \<Rightarrow> bool" where
  "holds h P r = (case flight_objs h r of None \<Rightarrow> False | Some f \<Rightarrow> P f)"

text \<open>\<open>[f for f in filtered if P(f)]\<close>, for the list reference \<open>filtered\<close>.\<close>

definition comprehension :: "heap \<Rightarrow> (Flight \<Rightarrow> bool) \<Rightarrow> ref \<Rightarrow> heap \<times> ref" where
  "comprehension h P filtered =
     new_list h (filter (holds h P) (case list_objs h filtered of None \<Rightarrow> [] | Some rs \<Rightarrow> rs))"

text \<open>
  One \<open>if criterion: filtered = [...]\<close> block: without the criterion the heap and the
  reference stay as they are.
\<close>

fun apply_filter :: "(Flight \<Rightarrow> bool) option \<Rightarrow> heap \<times> ref \<Rightarrow> heap \<times> ref" where
  "apply_filter None s = s"
| "apply_filter (Some P) (h, filtered) = comprehension h P filtered"

definition filter_flights_heap ::
  "heap \<Rightarrow> ref \<Rightarrow> string list option \<Rightarrow> pyfloat option \<Rightarrow> (time \<times> time) option \<Rightarrow>
   (date \<times> date option) option \<Rightarrow> heap \<times> ref" where
  "filter_flights_heap h flights airlines max_price dep_time_between dates =
     (let s = (h, flights);
          s = apply_filter (case airlines of
                              None \<Rightarrow> None
                            | Some al \<Rightarrow> if al = [] then None else Some (airline_match al)) s;
          s = apply_filter (map_option price_match max_price) s;
          s = apply_filter (map_option time_match dep_time_between) s;
          s = apply_filter (map_option date_match dates) s
      in s)"

text \<open>The fixture on a heap: the six flights at addresses 0 to 5 and their list at 6.\<close>

definition sample_heap :: heap where
  "sample_heap =
     \<lparr>flight_objs = map_of (zip [0, 1, 2, 3, 4, 5] (sample_flights remdups)),
      list_objs = [6 \<mapsto> [0, 1, 2, 3, 4, 5]],
      next_ref = 7\<rparr>"

section \<open>Durations of the Amadeus offers (app\_streamlit\_new.py)\<close>

text \<open>
  \<open>_iso8601_duration_to_minutes\<close> matches its argument against the whole of
  \<open>PT(?:(\d+)H)?(?:(\d+)M)?\<close>. \<open>opt_group c s\<close> is one optional group at the start of \<open>s\<close>:
  a non-empty run of digits followed by the letter \<open>c\<close> gives the digits and what follows;
  otherwise the group matches nothing. Digits and the two letters are different characters,
  so no other way of matching exists. \<open>int(m.group(i) or 0)\<close> is 0 for a group that did not
  take part and the value of its digits otherwise. A string that does not match gives 0.
\<close>

definition opt_group :: "char \<Rightarrow> string \<Rightarrow> string option \<times> string" where
  "opt_group c s =
     (let ds = takeWhile is_digit s
      in case dropWhile is_digit s of
           [] \<Rightarrow> (None, s)
         | x # r \<Rightarrow> if ds \<noteq> [] \<and> x = c then (Some ds, r) else (None, s))"

definition int_of_group :: "nat \<Rightarrow> string option \<Rightarrow> exn + int" where
  "int_of_group maxd g = (case g of None \<Rightarrow> Inr 0 | Some ds \<Rightarrow> py_int maxd ds)"

definition iso8601_duration_to_minutes :: "nat \<Rightarrow> string \<Rightarrow> exn + int" where
  "iso8601_duration_to_minutes maxd d =
     (if take 2 d = ''PT'' then
        (case opt_group CHR ''H'' (drop 2 d) of
           (g1, rest1) \<Rightarrow>
             (case opt_group CHR ''M'' rest1 of
                (g2, rest2) \<Rightarrow>
                  if rest2 = [] then
                    (case int_of_group maxd g1 of
                       Inl e \<Rightarrow> Inl e
                     | Inr h \<Rightarrow>
                         (case int_of_group maxd g2 of
                            Inl e \<Rightarrow> Inl e
                          | Inr mins \<Rightarrow> Inr (h * 60 + mins)))
                  else Inr 0))
      else Inr 0)"

text \<open>
  The duration of a segment in \<open>fetch_live_offers_amadeus\<close>: the parsed duration of the
  segment's \<open>duration\<close> entry (\<open>"PT0M"\<close> when the entry is absent) and, when that is 0,
  \<open>int((arr_dt_local - dep_dt_local).total_seconds() // 60)\<close>. Both timestamps come from
  \<open>_parse_dt\<close> and are naive, so their difference is that of their field values. The floor of
  the minutes is computed here in exact arithmetic; the interpreter computes it on floats,
  with the same result for timestamps that carry no microseconds.
\<close>

definition floor_minutes :: "int \<Rightarrow> int" where
  "floor_minutes us = us div 60000000"

definition segment_duration :: "nat \<Rightarrow> string option \<Rightarrow> datetime \<Rightarrow> datetime \<Rightarrow> exn + int" where
  "segment_duration maxd duration dep_dt_local arr_dt_local =
     (case iso8601_duration_to_minutes maxd (case duration of None \<Rightarrow> ''PT0M'' | Some d \<Rightarrow> d) of
        Inl e \<Rightarrow> Inl e
      | Inr dur_minutes \<Rightarrow>
          Inr (if dur_minutes = 0 then floor_minutes (timedelta_us arr_dt_local dep_dt_local)
               else dur_minutes))"

text \<open>
  A run of digits that \<open>int\<close> accepts: not empty, digits only, and not longer than the
  interpreter's limit.
\<close>

definition digit_run :: "nat \<Rightarrow> string \<Rightarrow> bool" where
  "digit_run maxd ds \<longleftrightarrow>
     ds \<noteq> [] \<and> list_all is_digit ds \<and>
     (if 640 < length ds \<and> 0 < maxd then length ds \<le> maxd else True)"

section \<open>Prices at the boundary\<close>







section \<open>Properties of the filter\<close>

text \<open>
  C1. With the four criteria absent, \<open>filter_flights\<close> returns its input list.
\<close>

theorem filter_flights_no_criteria:
  "filter_flights fs None None None None = fs"
  by (simp add: filter_flights_def)

lemma filter_flights_keeps:
  "filter_flights fs al mp tw ds = filter (keeps al mp tw ds) fs"
  by (cases al; cases mp; cases tw; cases ds)
     (auto simp: filter_flights_def keeps_def intro: filter_cong)

lemma airline_match_inter:
  "airline_match al f \<longleftrightarrow> set (airline_codes f) \<inter> set (map upper al) \<noteq> {}"
  by (auto simp: airline_match_def list_ex_iff)

text \<open>
  C3. When an airline filter is given (a non-empty list), a flight is kept exactly when its
  airline codes and the filter set, which the code builds by upper-casing the given codes,
  have a code in common; one common code is enough, the flight's other codes need not be in
  the set.
\<close>

theorem airline_filter_intersects:
  assumes "airlines \<noteq> []"
  shows "filter_flights fs (Some airlines) None None None =
           filter (\<lambda>f. set (airline_codes f) \<inter> set (map upper airlines) \<noteq> {}) fs \<and>
         (f \<in> set (filter_flights fs (Some airlines) None None None) \<longleftrightarrow>
            f \<in> set fs \<and> (\<exists>code. code \<in> set (airline_codes f) \<and> code \<in> set (map upper airlines)))"
proof -
  have eq: "filter_flights fs (Some airlines) None None None = filter (airline_match airlines) fs"
    using assms by (simp add: filter_flights_def)
  have "filter (airline_match airlines) fs =
          filter (\<lambda>f. set (airline_codes f) \<inter> set (map upper airlines) \<noteq> {}) fs"
    by (rule filter_cong) (simp_all add: airline_match_inter)
  moreover have "f \<in> set (filter (airline_match airlines) fs) \<longleftrightarrow>
      f \<in> set fs \<and> (\<exists>code. code \<in> set (airline_codes f) \<and> code \<in> set (map upper airlines))"
    by (auto simp: airline_match_inter)
  ultimately show ?thesis using eq by simp
qed

theorem airline_filter_intersects_witness:
  "[''EK''] \<noteq> [] \<and> filter_flights [qr_ek_flight] (Some [''EK'']) None None None = [qr_ek_flight]"
proof -
  have ne: "[''EK''] \<noteq> []" by simp
  have up: "upper ''EK'' = ''EK''" by (simp add: upper_def upper_char_def)
  show ?thesis
    using airline_filter_intersects [OF ne, of "[qr_ek_flight]" qr_ek_flight]
    by (simp add: up qr_ek_flight_def)
qed

text \<open>On lists of flights as values, the result is the input with some elements left out.\<close>

lemma filter_flights_subseq:
  "subseq (filter_flights fs al mp tw ds) fs \<and>
   filter_flights fs al mp tw ds = filter (keeps al mp tw ds) fs \<and>
   count_list (filter_flights fs al mp tw ds) f \<le> count_list fs f"
proof -
  have "count_list (filter P xs) x \<le> count_list xs x" for P and xs :: "Flight list" and x
    by (induction xs) auto
  then show ?thesis
    by (simp add: filter_flights_keeps)
qed

text \<open>
  C9. A flight constructed with no airline codes and at least one segment carries exactly the
  airline codes of its segments, each once; a flight constructed with airline codes keeps
  them as given.
\<close>

theorem Flight_init_airline_codes:
  assumes "is_set_order so"
  shows "(itin \<noteq> [] \<longrightarrow>
            set (airline_codes (Flight_init so p cur [] itin l)) = set (map airline_code itin) \<and>
            distinct (airline_codes (Flight_init so p cur [] itin l))) \<and>
         (codes \<noteq> [] \<longrightarrow> airline_codes (Flight_init so p cur codes itin l) = codes)"
  using assms by (simp add: Flight_init_def is_set_order_def)

theorem Flight_init_airline_codes_witness:
  "is_set_order remdups \<and> example_segments \<noteq> [] \<and> [''SK''] \<noteq> [] \<and>
   set (airline_codes (Flight_init remdups (Finite 9000) ''NOK'' [] example_segments None)) =
     {''QR'', ''EK''} \<and>
   distinct (airline_codes (Flight_init remdups (Finite 9000) ''NOK'' [] example_segments None)) \<and>
   airline_codes (Flight_init remdups (Finite 9000) ''NOK'' [''SK''] example_segments None) = [''SK'']"
proof -
  have so: "is_set_order remdups" by (simp add: is_set_order_def)
  have ne: "example_segments \<noteq> []" by (simp add: example_segments_def)
  have codes: "map airline_code example_segments = [''QR'', ''EK'', ''QR'']"
    by (simp add: example_segments_def FlightSegment_init_def)
  show ?thesis
    using Flight_init_airline_codes [OF so, of example_segments "Finite 9000" "''NOK''" None "[''SK'']"]
    by (auto simp: so ne codes)
qed

text \<open>
  C6. Of the six flights of the test fixture, the filter with airlines \<open>["QR"]\<close>, maximum
  price 9000, departure window 06:00 to 10:00 and the single date 2025-12-10 keeps exactly
  one: the first, which costs 8950, carries the code QR and departs at 07:30.
\<close>

theorem sample_flights_all_filters:
  "filter_flights (sample_flights so) (Some [''QR'']) (Some (Finite 9000))
     (Some (mk_time 6 0, mk_time 10 0)) (Some (mk_date 2025 12 10, None)) =
   [create_test_flight so (Finite 8950) ''NOK'' [''QR'']
      (naive_datetime 2025 12 10 7 30) (naive_datetime 2025 12 11 17 30) ''OSL'' ''PER''] \<and>
   map price_total (filter_flights (sample_flights so) (Some [''QR'']) (Some (Finite 9000))
     (Some (mk_time 6 0, mk_time 10 0)) (Some (mk_date 2025 12 10, None))) = [Finite 8950] \<and>
   map airline_codes (filter_flights (sample_flights so) (Some [''QR'']) (Some (Finite 9000))
     (Some (mk_time 6 0, mk_time 10 0)) (Some (mk_date 2025 12 10, None))) = [[''QR'']] \<and>
   map (\<lambda>f. map (\<lambda>s. time_part (dep_time_local s)) (itinerary f))
     (filter_flights (sample_flights so) (Some [''QR'']) (Some (Finite 9000))
     (Some (mk_time 6 0, mk_time 10 0)) (Some (mk_date 2025 12 10, None))) = [[mk_time 7 30]]"
proof -
  have up: "upper ''QR'' = ''QR''" by (simp add: upper_def upper_char_def)
  have res: "filter_flights (sample_flights so) (Some [''QR'']) (Some (Finite 9000))
      (Some (mk_time 6 0, mk_time 10 0)) (Some (mk_date 2025 12 10, None)) =
    [create_test_flight so (Finite 8950) ''NOK'' [''QR'']
      (naive_datetime 2025 12 10 7 30) (naive_datetime 2025 12 11 17 30) ''OSL'' ''PER'']"
    by (simp add: filter_flights_def sample_flights_def create_test_flight_def Flight_init_def
        FlightSegment_init_def ensure_tz_def naive_datetime_def mk_time_def mk_date_def
        airline_match_def price_match_def time_match_def date_match_def time_le_def up)
  show ?thesis
    unfolding res
    by (simp add: create_test_flight_def Flight_init_def FlightSegment_init_def ensure_tz_def
        naive_datetime_def mk_time_def)
qed

section \<open>Sorting by departure\<close>

lemma FlightSegment_init_aware:
  "\<not> is_naive (dep_time_local (FlightSegment_init fa ta dep arr dur fno ac))"
  by (simp add: FlightSegment_init_def ensure_tz_def is_naive_def)

lemma datetime_lt_mixed:
  "is_naive a \<noteq> is_naive b \<Longrightarrow> datetime_lt zi a b = Inl TypeError"
  by (cases "tzinfo a"; cases "tzinfo b") (simp_all add: datetime_lt_def is_naive_def)

lemma datetime_lt_same:
  "is_naive a = is_naive b \<Longrightarrow> \<exists>r. datetime_lt zi a b = Inr r"
  by (cases "tzinfo a"; cases "tzinfo b") (simp_all add: datetime_lt_def is_naive_def Let_def)

lemma insort_lt_same:
  "\<forall>y \<in> set ys. is_naive (fst y) = is_naive (fst x) \<Longrightarrow>
   \<exists>zs. insort_lt (datetime_lt zi) x ys = Inr zs \<and> set zs = insert x (set ys)"
proof (induction ys)
  case Nil
  show ?case by simp
next
  case (Cons y ys)
  have "is_naive (fst x) = is_naive (fst y)"
    using Cons.prems by (metis list.set_intros(1))
  then obtain r where r: "datetime_lt zi (fst x) (fst y) = Inr r"
    using datetime_lt_same by blast
  have "\<forall>y \<in> set ys. is_naive (fst y) = is_naive (fst x)"
    using Cons.prems by (metis list.set_intros(2))
  then obtain zs where zs: "insort_lt (datetime_lt zi) x ys = Inr zs" "set zs = insert x (set ys)"
    using Cons.IH by blast
  show ?case
  proof (cases r)
    case True
    with r show ?thesis by simp
  next
    case False
    with r zs show ?thesis by auto
  qed
qed

lemma insort_lt_mixed:
  assumes "ys \<noteq> []" and "\<forall>y \<in> set ys. is_naive (fst y) \<noteq> is_naive (fst x)"
  shows "insort_lt (datetime_lt zi) x ys = Inl TypeError"
proof (cases ys)
  case Nil
  with assms(1) show ?thesis by simp
next
  case (Cons y ys')
  with assms(2) have "is_naive (fst x) \<noteq> is_naive (fst y)" by (metis list.set_intros(1))
  then have "datetime_lt zi (fst x) (fst y) = Inl TypeError" by (rule datetime_lt_mixed)
  with Cons show ?thesis by simp
qed

lemma sort_keyed_mixed:
  assumes "\<forall>a \<in> set acc. \<forall>b \<in> set acc. is_naive (fst a) = is_naive (fst b)"
    and "\<exists>a \<in> set acc \<union> set xs. \<exists>b \<in> set acc \<union> set xs. is_naive (fst a) \<noteq> is_naive (fst b)"
  shows "sort_keyed (datetime_lt zi) acc xs = Inl TypeError"
  using assms
proof (induction xs arbitrary: acc)
  case Nil
  then show ?case by (metis Un_empty_right list.set(1))
next
  case (Cons x xs)
  show ?case
  proof (cases "\<forall>y \<in> set acc. is_naive (fst y) = is_naive (fst x)")
    case True
    then obtain zs where zs: "insort_lt (datetime_lt zi) x acc = Inr zs" "set zs = insert x (set acc)"
      using insort_lt_same by blast
    have same: "\<forall>a \<in> set zs. \<forall>b \<in> set zs. is_naive (fst a) = is_naive (fst b)"
      using True Cons.prems(1) unfolding zs(2) by blast
    have "set zs \<union> set xs = set acc \<union> set (x # xs)"
      unfolding zs(2) by auto
    then have mixed: "\<exists>a \<in> set zs \<union> set xs. \<exists>b \<in> set zs \<union> set xs.
        is_naive (fst a) \<noteq> is_naive (fst b)"
      using Cons.prems(2) by metis
    show ?thesis using Cons.IH [OF same mixed] zs(1) by simp
  next
    case False
    then obtain y where y: "y \<in> set acc" "is_naive (fst y) \<noteq> is_naive (fst x)"
      by blast
    then have ne: "acc \<noteq> []" by auto
    have "\<forall>z \<in> set acc. is_naive (fst z) \<noteq> is_naive (fst x)"
      using y Cons.prems(1) by blast
    then have "insort_lt (datetime_lt zi) x acc = Inl TypeError"
      using ne by (rule insort_lt_mixed [rotated])
    then show ?thesis by simp
  qed
qed

text \<open>
  C4. Sorting by \<open>"departure"\<close> a list that holds a flight without segments and a flight
  whose first segment was built by the constructor of \<open>FlightSegment\<close> does not put the
  former first: its key \<open>datetime.min\<close> is naive, the constructor has made every segment's
  timestamp aware, and the comparison of the two keys raises \<open>TypeError\<close>.
\<close>

theorem sort_by_departure_raises:
  assumes "f \<in> set flights" and "itinerary f = []"
    and "g \<in> set flights"
    and "itinerary g = FlightSegment_init fa ta dep arr dur fno ac # rest"
  shows "display_flights_sort zi flights ''departure'' = Inl TypeError"
proof -
  have kf: "is_naive (departure_key f)"
    using assms(2) by (simp add: departure_key_def datetime_min_def naive_datetime_def is_naive_def)
  have kg: "\<not> is_naive (departure_key g)"
    using assms(4) FlightSegment_init_aware by (simp add: departure_key_def)
  let ?ps = "map (\<lambda>x. (departure_key x, x)) flights"
  have inf: "(departure_key f, f) \<in> set [] \<union> set ?ps"
    using assms(1) by simp
  have ing: "(departure_key g, g) \<in> set [] \<union> set ?ps"
    using assms(3) by simp
  have ne: "is_naive (fst (departure_key f, f)) \<noteq> is_naive (fst (departure_key g, g))"
    using kf kg by simp
  have same: "\<forall>a \<in> set ([] :: (datetime \<times> Flight) list). \<forall>b \<in> set []. is_naive (fst a) = is_naive (fst b)"
    by simp
  have mixed: "\<exists>a \<in> set [] \<union> set ?ps. \<exists>b \<in> set [] \<union> set ?ps.
      is_naive (fst a) \<noteq> is_naive (fst b)"
    using inf ing ne by blast
  have "sort_keyed (datetime_lt zi) [] ?ps = Inl TypeError"
    using same mixed by (rule sort_keyed_mixed)
  moreover have "flights \<noteq> []" using assms(1) by auto
  ultimately show ?thesis
    by (simp add: display_flights_sort_def list_sort_def)
qed

theorem sort_by_departure_raises_witness:
  "no_segment_flight \<in> set mixed_flights \<and> itinerary no_segment_flight = [] \<and>
   display_flights_sort (\<lambda>k dt. 3600) mixed_flights ''departure'' = Inl TypeError"
proof -
  have a: "no_segment_flight \<in> set mixed_flights" by (simp add: mixed_flights_def)
  have b: "itinerary no_segment_flight = []" by (simp add: no_segment_flight_def)
  let ?g = "create_test_flight remdups (Finite 8950) ''NOK'' [''QR'']
        (naive_datetime 2025 12 10 7 30) (naive_datetime 2025 12 11 17 30) ''OSL'' ''PER''"
  have c: "?g \<in> set mixed_flights" by (simp add: mixed_flights_def)
  have d: "itinerary ?g =
      FlightSegment_init ''OSL'' ''PER''
        ((naive_datetime 2025 12 10 7 30)\<lparr>tzinfo := Some (ZoneInfo ''Europe/Oslo'')\<rparr>)
        ((naive_datetime 2025 12 11 17 30)\<lparr>tzinfo := Some (ZoneInfo ''Europe/Oslo'')\<rparr>)
        (trunc_minutes (timedelta_us (naive_datetime 2025 12 11 17 30) (naive_datetime 2025 12 10 7 30)))
        ''TEST123'' ''QR'' # []"
    by (simp add: create_test_flight_def Flight_init_def)
  show ?thesis
    using sort_by_departure_raises [OF a b c d, of "\<lambda>k dt. 3600"] a b by simp
qed

section \<open>Provider selection\<close>

text \<open>
  C5, as the code has it. When the selected provider's API key is missing or empty, or the
  provider name is none of KIWI, AMADEUS and SKYSCANNER, \<open>get_provider\<close> returns the mock
  provider, with a warning unless the name is MOCK, and the search runs on the mock provider.
  When the name is AMADEUS or SKYSCANNER and its key is set, the stub provider is returned
  without a warning; its \<open>search_flights\<close> raises \<open>NotImplementedError\<close> and the search
  command exits with status 1.
\<close>

theorem get_provider_fallback:
  "(api_key env (PROVIDER_NAME env @ ''_API_KEY'') = None \<or>
      PROVIDER_NAME env \<notin> {''KIWI'', ''AMADEUS'', ''SKYSCANNER''} \<longrightarrow>
      get_provider env =
        (MockProvider,
         if PROVIDER_NAME env = ''MOCK'' then None
         else Some (fallback_warning (PROVIDER_NAME env))) \<and>
      search zi bk env al mp tw ds sb =
        (if PROVIDER_NAME env = ''MOCK'' then None
         else Some (fallback_warning (PROVIDER_NAME env)),
         run_search zi bk MockProvider al mp tw ds sb)) \<and>
   (api_key env (PROVIDER_NAME env @ ''_API_KEY'') = Some k \<and>
      PROVIDER_NAME env \<in> {''AMADEUS'', ''SKYSCANNER''} \<longrightarrow>
      get_provider env =
        (if PROVIDER_NAME env = ''AMADEUS'' then AmadeusProvider k else SkyscannerProvider k,
         None) \<and>
      search zi bk env al mp tw ds sb = (None, Inl (Exit 1)))"
proof -
  define name where "name = PROVIDER_NAME env"
  have gp: "get_provider env =
     (case (if name = ''KIWI'' then api_key env ''KIWI_API_KEY'' else None) of
           Some k \<Rightarrow> (KiwiProvider k, None)
         | None \<Rightarrow>
        (case (if name = ''AMADEUS'' then api_key env ''AMADEUS_API_KEY'' else None) of
           Some k \<Rightarrow> (AmadeusProvider k, None)
         | None \<Rightarrow>
        (case (if name = ''SKYSCANNER'' then api_key env ''SKYSCANNER_API_KEY'' else None) of
           Some k \<Rightarrow> (SkyscannerProvider k, None)
         | None \<Rightarrow>
             (MockProvider,
              if name = ''MOCK'' then None else Some (fallback_warning name)))))"
    unfolding get_provider_def Let_def name_def by (rule refl)
  consider (kiwi) "name = ''KIWI''" | (amadeus) "name = ''AMADEUS''"
    | (sky) "name = ''SKYSCANNER''"
    | (other) "name \<noteq> ''KIWI''" "name \<noteq> ''AMADEUS''" "name \<noteq> ''SKYSCANNER''"
    by blast
  then have "(api_key env (name @ ''_API_KEY'') = None \<or>
      name \<notin> {''KIWI'', ''AMADEUS'', ''SKYSCANNER''} \<longrightarrow>
      get_provider env =
        (MockProvider, if name = ''MOCK'' then None else Some (fallback_warning name)) \<and>
      search zi bk env al mp tw ds sb =
        (if name = ''MOCK'' then None else Some (fallback_warning name),
         run_search zi bk MockProvider al mp tw ds sb)) \<and>
   (api_key env (name @ ''_API_KEY'') = Some k \<and> name \<in> {''AMADEUS'', ''SKYSCANNER''} \<longrightarrow>
      get_provider env =
        (if name = ''AMADEUS'' then AmadeusProvider k else SkyscannerProvider k, None) \<and>
      search zi bk env al mp tw ds sb = (None, Inl (Exit 1)))"
  proof cases
    case kiwi
    then show ?thesis by (simp add: gp search_def)
  next
    case amadeus
    then show ?thesis by (simp add: gp search_def run_search_def)
  next
    case sky
    then show ?thesis by (simp add: gp search_def run_search_def)
  next
    case other
    then show ?thesis by (simp add: gp search_def)
  qed
  then show ?thesis by (simp only: name_def)
qed

theorem get_provider_fallback_witness:
  "api_key kiwi_env_no_key ''KIWI_API_KEY'' = None \<and>
   get_provider kiwi_env_no_key = (MockProvider, Some (fallback_warning ''KIWI'')) \<and>
   search (\<lambda>k dt. 3600) example_backend kiwi_env_no_key None None None
       (mk_date 2025 12 10, None) ''price'' =
     (Some (fallback_warning ''KIWI''),
      run_search (\<lambda>k dt. 3600) example_backend MockProvider None None None
        (mk_date 2025 12 10, None) ''price'') \<and>
   api_key amadeus_env ''AMADEUS_API_KEY'' = Some ''key'' \<and>
   get_provider amadeus_env = (AmadeusProvider ''key'', None) \<and>
   search (\<lambda>k dt. 3600) example_backend amadeus_env None None None
       (mk_date 2025 12 10, None) ''price'' = (None, Inl (Exit 1))"
proof -
  have n1: "PROVIDER_NAME kiwi_env_no_key = ''KIWI''"
    by (simp add: PROVIDER_NAME_def kiwi_env_no_key_def upper_def upper_char_def)
  have n2: "PROVIDER_NAME amadeus_env = ''AMADEUS''"
    by (simp add: PROVIDER_NAME_def amadeus_env_def upper_def upper_char_def)
  have k1: "api_key kiwi_env_no_key ''KIWI_API_KEY'' = None"
    by (simp add: api_key_def kiwi_env_no_key_def)
  have k2: "api_key amadeus_env ''AMADEUS_API_KEY'' = Some ''key''"
    by (simp add: api_key_def amadeus_env_def)
  show ?thesis
    using get_provider_fallback [of kiwi_env_no_key "(\<lambda>k dt. 3600)" example_backend None None None
        "(mk_date 2025 12 10, None)" "''price''" "''key''"]
      get_provider_fallback [of amadeus_env "(\<lambda>k dt. 3600)" example_backend None None None
        "(mk_date 2025 12 10, None)" "''price''" "''key''"]
    by (simp add: n1 n2 k1 k2)
qed

text \<open>
  With PROVIDER=AMADEUS and an Amadeus key in the environment, the provider selected is not
  the mock provider, no warning is given, and the search command exits with status 1.
\<close>

theorem amadeus_stub_aborts:
  "fst (get_provider amadeus_env) = AmadeusProvider ''key'' \<and>
   snd (get_provider amadeus_env) = None \<and>
   snd (search (\<lambda>k dt. 3600) example_backend amadeus_env None None None
          (mk_date 2025 12 10, None) ''price'') = Inl (Exit 1)"
proof -
  have n: "PROVIDER_NAME amadeus_env = ''AMADEUS''"
    by (simp add: PROVIDER_NAME_def amadeus_env_def upper_def upper_char_def)
  have k: "api_key amadeus_env ''AMADEUS_API_KEY'' = Some ''key''"
    by (simp add: api_key_def amadeus_env_def)
  have gp: "get_provider amadeus_env = (AmadeusProvider ''key'', None)"
    by (simp add: get_provider_def n k)
  show ?thesis
    by (simp add: gp search_def run_search_def)
qed

section \<open>The departure window\<close>





lemma py_time_Inr:
  "py_time h mi = Inr t \<longleftrightarrow>
     0 \<le> h \<and> h \<le> 23 \<and> 0 \<le> mi \<and> mi \<le> 59 \<and> t = mk_time (nat h) (nat mi)"
  by (auto simp: py_time_def c_int_ok_def)











section \<open>Filtering leaves its arguments alone\<close>

lemma those_filter:
  "those (map F rs) = Some fs \<Longrightarrow>
   those (map F (filter (\<lambda>r. case F r of None \<Rightarrow> False | Some f \<Rightarrow> P f) rs)) = Some (filter P fs)"
proof (induction rs arbitrary: fs)
  case Nil
  then show ?case by simp
next
  case (Cons r rs)
  then obtain f fs' where f: "F r = Some f" and fs': "those (map F rs) = Some fs'"
    and fs: "fs = f # fs'"
    by (auto split: option.splits)
  from Cons.IH [OF fs'] show ?case
    by (simp add: f fs)
qed

lemma filter_conj: "filter P (filter Q xs) = filter (\<lambda>x. Q x \<and> P x) xs"
  by (induction xs) auto

lemma apply_filter_step:
  assumes ok: "heap_ok h"
    and F: "flight_objs h = F"
    and L: "\<forall>a x. L a = Some x \<longrightarrow> list_objs h a = Some x"
    and cur: "list_objs h cur = Some rs'"
    and sub: "subseq rs' rs"
    and th: "those (map F rs') = Some (filter Q fs)"
    and step: "apply_filter c (h, cur) = (h', cur')"
  shows "heap_ok h' \<and> flight_objs h' = F \<and>
         (\<forall>a x. L a = Some x \<longrightarrow> list_objs h' a = Some x) \<and>
         (\<exists>rs''. list_objs h' cur' = Some rs'' \<and> subseq rs'' rs \<and>
            those (map F rs'') =
              Some (filter (\<lambda>f. Q f \<and> (case c of None \<Rightarrow> True | Some P \<Rightarrow> P f)) fs))"
proof (cases c)
  case None
  with step have "h' = h" "cur' = cur" by simp_all
  with None ok F L cur sub th show ?thesis by auto
next
  case (Some P)
  let ?rs = "filter (holds h P) rs'"
  from step Some cur have h': "h' = h\<lparr>list_objs := (list_objs h)(next_ref h \<mapsto> ?rs),
      next_ref := Suc (next_ref h)\<rparr>" and c': "cur' = next_ref h"
    by (auto simp: comprehension_def new_list_def)
  have ok': "heap_ok h'"
    using ok by (simp add: h' heap_ok_def)
  have F': "flight_objs h' = F"
    using F by (simp add: h')
  have fresh: "list_objs h a = Some x \<Longrightarrow> a \<noteq> next_ref h" for a x
    using ok by (auto simp: heap_ok_def)
  have L': "\<forall>a x. L a = Some x \<longrightarrow> list_objs h' a = Some x"
    using L fresh by (auto simp: h')
  have out: "list_objs h' cur' = Some ?rs"
    by (simp add: h' c')
  have "subseq ?rs rs'" by simp
  then have sub': "subseq ?rs rs" using sub by (rule subseq_order.trans)
  have "holds h P = (\<lambda>r. case F r of None \<Rightarrow> False | Some f \<Rightarrow> P f)"
    by (rule ext) (simp add: holds_def F)
  then have "those (map F ?rs) = Some (filter P (filter Q fs))"
    using those_filter [OF th, of P] by simp
  then have th': "those (map F ?rs) = Some (filter (\<lambda>f. Q f \<and> P f) fs)"
    by (simp add: filter_conj)
  show ?thesis
    using ok' F' L' out sub' th' Some by auto
qed

lemma filter_flights_as_filter:
  "filter_flights fs al mp tw ds =
     filter (\<lambda>f. (((True \<and>
        (case (case al of None \<Rightarrow> None
                      | Some a \<Rightarrow> if a = [] then None else Some (airline_match a)) of
           None \<Rightarrow> True | Some P \<Rightarrow> P f)) \<and>
        (case map_option price_match mp of None \<Rightarrow> True | Some P \<Rightarrow> P f)) \<and>
        (case map_option time_match tw of None \<Rightarrow> True | Some P \<Rightarrow> P f)) \<and>
        (case map_option date_match ds of None \<Rightarrow> True | Some P \<Rightarrow> P f)) fs"
  unfolding filter_flights_keeps
  by (rule filter_cong) (auto simp: keeps_def split: option.splits)

lemma count_list_filter_le: "count_list (filter P xs) x \<le> count_list xs x"
  by (induction xs) auto

lemma subseq_count_list: "subseq xs ys \<Longrightarrow> count_list xs x \<le> count_list ys x"
  by (induction rule: list_emb.induct) auto

text \<open>
  C10. Whatever the criteria, \<open>filter_flights\<close> returns a list whose elements are references
  to flights of the input list, in the input's order and no more often than there; the
  flights behind them are those the tests keep. Afterwards every flight object holds what it
  held before, and so does every list that existed before the call, the input list among
  them.
\<close>

theorem filter_flights_heap_subseq:
  assumes ok: "heap_ok h"
    and inp: "list_objs h flights = Some rs"
    and objs: "those (map (flight_objs h) rs) = Some fs"
    and run: "filter_flights_heap h flights al mp tw ds = (h', out)"
  shows "(\<exists>rs'. list_objs h' out = Some rs' \<and> subseq rs' rs \<and>
            (\<forall>r. count_list rs' r \<le> count_list rs r) \<and>
            those (map (flight_objs h') rs') = Some (filter_flights fs al mp tw ds)) \<and>
         subseq (filter_flights fs al mp tw ds) fs \<and>
         (\<forall>f. count_list (filter_flights fs al mp tw ds) f \<le> count_list fs f) \<and>
         flight_objs h' = flight_objs h \<and>
         list_objs h' flights = Some rs \<and>
         (\<forall>a x. list_objs h a = Some x \<longrightarrow> list_objs h' a = Some x)"
proof -
  let ?F = "flight_objs h"
  let ?L = "list_objs h"
  let ?c1 = "case al of None \<Rightarrow> None
             | Some a \<Rightarrow> if a = [] then None else Some (airline_match a)"
  obtain h1 l1 where s1: "apply_filter ?c1 (h, flights) = (h1, l1)"
    by (cases "apply_filter ?c1 (h, flights)") blast
  obtain h2 l2 where s2: "apply_filter (map_option price_match mp) (h1, l1) = (h2, l2)"
    by (cases "apply_filter (map_option price_match mp) (h1, l1)") blast
  obtain h3 l3 where s3: "apply_filter (map_option time_match tw) (h2, l2) = (h3, l3)"
    by (cases "apply_filter (map_option time_match tw) (h2, l2)") blast
  obtain h4 l4 where s4: "apply_filter (map_option date_match ds) (h3, l3) = (h4, l4)"
    by (cases "apply_filter (map_option date_match ds) (h3, l3)") blast
  from run have fin: "h' = h4" "out = l4"
    by (simp_all add: filter_flights_heap_def s1 s2 s3 s4)
  have L0: "\<forall>a x. ?L a = Some x \<longrightarrow> list_objs h a = Some x" by simp
  have th0: "those (map ?F rs) = Some (filter (\<lambda>f. True) fs)" using objs by simp
  have sub0: "subseq rs rs" by simp
  from apply_filter_step [OF ok refl L0 inp sub0 th0 s1]
  obtain r1 where i1: "heap_ok h1" "flight_objs h1 = ?F"
      "\<forall>a x. ?L a = Some x \<longrightarrow> list_objs h1 a = Some x"
      "list_objs h1 l1 = Some r1" "subseq r1 rs"
      "those (map ?F r1) = Some (filter (\<lambda>f. True \<and>
          (case ?c1 of None \<Rightarrow> True | Some P \<Rightarrow> P f)) fs)"
    by blast
  from apply_filter_step [OF i1 s2]
  obtain r2 where i2: "heap_ok h2" "flight_objs h2 = ?F"
      "\<forall>a x. ?L a = Some x \<longrightarrow> list_objs h2 a = Some x"
      "list_objs h2 l2 = Some r2" "subseq r2 rs"
      "those (map ?F r2) = Some (filter (\<lambda>f. (True \<and>
          (case ?c1 of None \<Rightarrow> True | Some P \<Rightarrow> P f)) \<and>
          (case map_option price_match mp of None \<Rightarrow> True | Some P \<Rightarrow> P f)) fs)"
    by blast
  from apply_filter_step [OF i2 s3]
  obtain r3 where i3: "heap_ok h3" "flight_objs h3 = ?F"
      "\<forall>a x. ?L a = Some x \<longrightarrow> list_objs h3 a = Some x"
      "list_objs h3 l3 = Some r3" "subseq r3 rs"
      "those (map ?F r3) = Some (filter (\<lambda>f. ((True \<and>
          (case ?c1 of None \<Rightarrow> True | Some P \<Rightarrow> P f)) \<and>
          (case map_option price_match mp of None \<Rightarrow> True | Some P \<Rightarrow> P f)) \<and>
          (case map_option time_match tw of None \<Rightarrow> True | Some P \<Rightarrow> P f)) fs)"
    by blast
  from apply_filter_step [OF i3 s4]
  obtain r4 where i4: "heap_ok h4" "flight_objs h4 = ?F"
      "\<forall>a x. ?L a = Some x \<longrightarrow> list_objs h4 a = Some x"
      "list_objs h4 l4 = Some r4" "subseq r4 rs"
      "those (map ?F r4) = Some (filter (\<lambda>f. (((True \<and>
          (case ?c1 of None \<Rightarrow> True | Some P \<Rightarrow> P f)) \<and>
          (case map_option price_match mp of None \<Rightarrow> True | Some P \<Rightarrow> P f)) \<and>
          (case map_option time_match tw of None \<Rightarrow> True | Some P \<Rightarrow> P f)) \<and>
          (case map_option date_match ds of None \<Rightarrow> True | Some P \<Rightarrow> P f)) fs)"
    by blast
  have res: "those (map (flight_objs h4) r4) = Some (filter_flights fs al mp tw ds)"
    unfolding filter_flights_as_filter i4(2) by (rule i4(6))
  have cnt: "\<forall>r. count_list r4 r \<le> count_list rs r"
    using subseq_count_list [OF i4(5)] by blast
  have first: "\<exists>rs'. list_objs h' out = Some rs' \<and> subseq rs' rs \<and>
            (\<forall>r. count_list rs' r \<le> count_list rs r) \<and>
            those (map (flight_objs h') rs') = Some (filter_flights fs al mp tw ds)"
    using i4(4) i4(5) cnt res unfolding fin by blast
  have second: "subseq (filter_flights fs al mp tw ds) fs"
    by (simp add: filter_flights_keeps)
  have third: "\<forall>f. count_list (filter_flights fs al mp tw ds) f \<le> count_list fs f"
    by (simp add: filter_flights_keeps count_list_filter_le)
  have fourth: "flight_objs h' = flight_objs h" unfolding fin by (rule i4(2))
  have sixth: "\<forall>a x. list_objs h a = Some x \<longrightarrow> list_objs h' a = Some x"
    unfolding fin by (rule i4(3))
  have fifth: "list_objs h' flights = Some rs" using sixth inp by blast
  show ?thesis
    using first second third fourth fifth sixth by blast
qed

theorem filter_flights_heap_subseq_witness:
  "heap_ok sample_heap \<and>
   list_objs sample_heap 6 = Some [0, 1, 2, 3, 4, 5] \<and>
   those (map (flight_objs sample_heap) [0, 1, 2, 3, 4, 5]) = Some (sample_flights remdups) \<and>
   snd (filter_flights_heap sample_heap 6 (Some [''QR'']) (Some (Finite 9000))
          (Some (mk_time 6 0, mk_time 10 0)) (Some (mk_date 2025 12 10, None))) = 10 \<and>
   list_objs (fst (filter_flights_heap sample_heap 6 (Some [''QR'']) (Some (Finite 9000))
          (Some (mk_time 6 0, mk_time 10 0)) (Some (mk_date 2025 12 10, None)))) 10 = Some [0] \<and>
   flight_objs (fst (filter_flights_heap sample_heap 6 (Some [''QR'']) (Some (Finite 9000))
          (Some (mk_time 6 0, mk_time 10 0)) (Some (mk_date 2025 12 10, None)))) =
     flight_objs sample_heap \<and>
   list_objs (fst (filter_flights_heap sample_heap 6 (Some [''QR'']) (Some (Finite 9000))
          (Some (mk_time 6 0, mk_time 10 0)) (Some (mk_date 2025 12 10, None)))) 6 =
     Some [0, 1, 2, 3, 4, 5]"
proof -
  let ?run = "filter_flights_heap sample_heap 6 (Some [''QR'']) (Some (Finite 9000))
          (Some (mk_time 6 0, mk_time 10 0)) (Some (mk_date 2025 12 10, None))"
  have ok: "heap_ok sample_heap" by (simp add: heap_ok_def sample_heap_def)
  have inp: "list_objs sample_heap 6 = Some [0, 1, 2, 3, 4, 5]" by (simp add: sample_heap_def)
  have objs: "those (map (flight_objs sample_heap) [0, 1, 2, 3, 4, 5]) = Some (sample_flights remdups)"
    by (simp add: sample_heap_def sample_flights_def)
  have run: "?run = (fst ?run, snd ?run)" by simp
  have up: "upper ''QR'' = ''QR''" by (simp add: upper_def upper_char_def)
  have ev: "snd ?run = 10 \<and> list_objs (fst ?run) 10 = Some [0]"
    by (simp add: filter_flights_heap_def comprehension_def new_list_def holds_def sample_heap_def
        sample_flights_def create_test_flight_def Flight_init_def
        FlightSegment_init_def ensure_tz_def naive_datetime_def mk_time_def mk_date_def
        airline_match_def price_match_def time_match_def date_match_def time_le_def up)
  show ?thesis
    using filter_flights_heap_subseq [OF ok inp objs run] ok inp objs ev by blast
qed

section \<open>Durations\<close>

lemma is_digit_not_letter:
  "\<not> is_digit CHR ''H''" "\<not> is_digit CHR ''M''" "\<not> is_digit CHR ''_''"
  by (simp_all add: is_digit_def)

lemma is_digit_plain:
  "is_digit c \<Longrightarrow> \<not> is_space c \<and> c \<noteq> CHR ''+'' \<and> c \<noteq> CHR ''-'' \<and> c \<noteq> CHR ''_''"
  by (auto simp: is_digit_def is_space_def)

lemma body_ok_digits: "ds \<noteq> [] \<Longrightarrow> list_all is_digit ds \<Longrightarrow> body_ok ds"
proof (induction ds rule: body_ok.induct)
  case 1
  then show ?case by simp
next
  case (2 c)
  then show ?case by simp
next
  case (3 c d cs)
  from "3.prems" have d: "is_digit d" by simp
  then have "d \<noteq> CHR ''_''" using is_digit_plain by blast
  with 3 show ?case by simp
qed

lemma py_int_digit_run:
  assumes "digit_run maxd ds"
  shows "py_int maxd ds = Inr (int (digits_value ds))"
proof -
  from assms obtain c cs where ds: "ds = c # cs" and all: "list_all is_digit ds"
    and lim: "\<not> (640 < length ds \<and> 0 < maxd \<and> maxd < length ds)"
    by (cases ds) (auto simp: digit_run_def split: if_splits)
  from all ds have c: "is_digit c" by simp
  have s1: "dropWhile is_space ds = ds"
    using c is_digit_plain by (simp add: ds)
  have all': "\<forall>x \<in> set ds. is_digit x \<or> x = CHR ''_''"
    using all by (simp add: list_all_iff)
  have tw: "takeWhile (\<lambda>c. is_digit c \<or> c = CHR ''_'') ds = ds"
    using all' by (simp add: takeWhile_eq_all_conv)
  have dw: "dropWhile (\<lambda>c. is_digit c \<or> c = CHR ''_'') ds = []"
    using all' by (simp add: dropWhile_eq_Nil_conv)
  have fl: "filter is_digit ds = ds"
    using all by (simp add: list_all_iff)
  have ok: "body_ok ds"
    using all ds by (intro body_ok_digits) simp_all
  have sign: "c \<noteq> CHR ''+''" "c \<noteq> CHR ''-''"
    using c is_digit_plain by blast+
  have s2: "(case ds of [] \<Rightarrow> [] | c # r \<Rightarrow> if c = CHR ''+'' \<or> c = CHR ''-'' then r else ds) = ds"
    using sign by (simp add: ds)
  have neg: "(case ds of [] \<Rightarrow> False | c # _ \<Rightarrow> c = CHR ''-'') = False"
    using sign by (simp add: ds)
  have "py_int maxd ds =
      (if body_ok ds \<and> dropWhile is_space [] = [] then
         (if 640 < length ds \<and> 0 < maxd \<and> maxd < length ds then Inl ValueError
          else Inr ((if False then - 1 else 1) * int (digits_value ds)))
       else Inl ValueError)"
    by (simp only: py_int_def Let_def s1 s2 neg tw dw fl)
  then show ?thesis
    using ok lim by simp
qed

lemma opt_group_match:
  assumes "ds \<noteq> []" and "list_all is_digit ds" and "\<not> is_digit c"
  shows "opt_group c (ds @ c # rest) = (Some ds, rest)"
proof -
  have all: "\<forall>x \<in> set ds. is_digit x" using assms(2) by (simp add: list_all_iff)
  have tw: "takeWhile is_digit (ds @ c # rest) = ds"
    using all assms(3) by (simp add: takeWhile_append2)
  have dw: "dropWhile is_digit (ds @ c # rest) = c # rest"
    using all assms(3) by (simp add: dropWhile_append2)
  show ?thesis
    using assms(1) by (simp add: opt_group_def tw dw)
qed

lemma opt_group_other_letter:
  assumes "list_all is_digit ds" and "\<not> is_digit x" and "x \<noteq> c"
  shows "opt_group c (ds @ x # rest) = (None, ds @ x # rest)"
proof -
  have all: "\<forall>y \<in> set ds. is_digit y" using assms(1) by (simp add: list_all_iff)
  have dw: "dropWhile is_digit (ds @ x # rest) = x # rest"
    using all assms(2) by (simp add: dropWhile_append2)
  show ?thesis
    using assms(3) by (simp add: opt_group_def dw)
qed

lemma opt_group_Nil: "opt_group c [] = (None, [])"
  by (simp add: opt_group_def)

lemma take_drop_PT: "take 2 (''PT'' @ s) = ''PT''" "drop 2 (''PT'' @ s) = s"
  by simp_all

lemma iso_hours_minutes:
  assumes "digit_run maxd hs" and "digit_run maxd ms"
  shows "iso8601_duration_to_minutes maxd (''PT'' @ hs @ ''H'' @ ms @ ''M'') =
           Inr (int (digits_value hs) * 60 + int (digits_value ms))"
proof -
  have h: "hs \<noteq> []" "list_all is_digit hs" and m: "ms \<noteq> []" "list_all is_digit ms"
    using assms by (simp_all add: digit_run_def)
  have g1: "opt_group CHR ''H'' (hs @ CHR ''H'' # ms @ ''M'') = (Some hs, ms @ ''M'')"
    using h is_digit_not_letter(1) by (rule opt_group_match)
  have g2: "opt_group CHR ''M'' (ms @ CHR ''M'' # []) = (Some ms, [])"
    using m is_digit_not_letter(2) by (rule opt_group_match)
  have "iso8601_duration_to_minutes maxd (''PT'' @ (hs @ CHR ''H'' # ms @ ''M'')) =
      Inr (int (digits_value hs) * 60 + int (digits_value ms))"
    unfolding iso8601_duration_to_minutes_def take_drop_PT
    using g2 by (simp add: g1 int_of_group_def py_int_digit_run [OF assms(1)]
        py_int_digit_run [OF assms(2)])
  then show ?thesis by simp
qed

lemma iso_hours_only:
  assumes "digit_run maxd hs"
  shows "iso8601_duration_to_minutes maxd (''PT'' @ hs @ ''H'') = Inr (int (digits_value hs) * 60)"
proof -
  have h: "hs \<noteq> []" "list_all is_digit hs"
    using assms by (simp_all add: digit_run_def)
  have g1: "opt_group CHR ''H'' (hs @ CHR ''H'' # []) = (Some hs, [])"
    using h is_digit_not_letter(1) by (rule opt_group_match)
  have "iso8601_duration_to_minutes maxd (''PT'' @ (hs @ CHR ''H'' # [])) =
      Inr (int (digits_value hs) * 60)"
    unfolding iso8601_duration_to_minutes_def take_drop_PT
    by (simp add: g1 opt_group_Nil int_of_group_def py_int_digit_run [OF assms])
  then show ?thesis by simp
qed

lemma iso_minutes_only:
  assumes "digit_run maxd ms"
  shows "iso8601_duration_to_minutes maxd (''PT'' @ ms @ ''M'') = Inr (int (digits_value ms))"
proof -
  have m: "ms \<noteq> []" "list_all is_digit ms"
    using assms by (simp_all add: digit_run_def)
  have g1: "opt_group CHR ''H'' (ms @ CHR ''M'' # []) = (None, ms @ CHR ''M'' # [])"
    using m(2) is_digit_not_letter(2) by (rule opt_group_other_letter) simp
  have g2: "opt_group CHR ''M'' (ms @ CHR ''M'' # []) = (Some ms, [])"
    using m is_digit_not_letter(2) by (rule opt_group_match)
  have "iso8601_duration_to_minutes maxd (''PT'' @ (ms @ CHR ''M'' # [])) =
      Inr (int (digits_value ms))"
    unfolding iso8601_duration_to_minutes_def take_drop_PT
    by (simp add: g1 g2 int_of_group_def py_int_digit_run [OF assms])
  then show ?thesis by simp
qed

lemma iso_neither: "iso8601_duration_to_minutes maxd ''PT'' = Inr 0"
  by (simp add: iso8601_duration_to_minutes_def opt_group_Nil int_of_group_def)

lemma digit_run_small:
  "digit_run maxd ''11''" "digit_run maxd ''5''" "digit_run maxd ''0''"
  by (simp_all add: digit_run_def is_digit_def)

lemma digits_value_small:
  "digits_value ''11'' = 11" "digits_value ''5'' = 5" "digits_value ''0'' = 0"
  by (simp_all add: digits_value_def digit_val_def)

text \<open>
  C8. For runs of digits \<open>hs\<close> and \<open>ms\<close>, \<open>PThsHmsM\<close> gives 60 times the hours plus the
  minutes, \<open>PThsH\<close> the hours alone, \<open>PTmsM\<close> the minutes alone and \<open>PT\<close> gives 0;
  \<open>PT11H5M\<close> is 665 minutes. When the parsed duration of a segment is 0, which it also is
  when the segment has no duration entry, the duration of the segment is the whole minutes
  from departure to arrival; a parsed duration other than 0 is kept.
\<close>

theorem iso8601_duration_cases:
  "(digit_run maxd hs \<and> digit_run maxd ms \<longrightarrow>
      iso8601_duration_to_minutes maxd (''PT'' @ hs @ ''H'' @ ms @ ''M'') =
        Inr (int (digits_value hs) * 60 + int (digits_value ms))) \<and>
   (digit_run maxd hs \<longrightarrow>
      iso8601_duration_to_minutes maxd (''PT'' @ hs @ ''H'') = Inr (int (digits_value hs) * 60)) \<and>
   (digit_run maxd ms \<longrightarrow>
      iso8601_duration_to_minutes maxd (''PT'' @ ms @ ''M'') = Inr (int (digits_value ms))) \<and>
   iso8601_duration_to_minutes maxd ''PT'' = Inr 0 \<and>
   iso8601_duration_to_minutes maxd ''PT11H5M'' = Inr 665 \<and>
   (iso8601_duration_to_minutes maxd d = Inr 0 \<longrightarrow>
      segment_duration maxd (Some d) dep arr = Inr (floor_minutes (timedelta_us arr dep))) \<and>
   segment_duration maxd None dep arr = Inr (floor_minutes (timedelta_us arr dep)) \<and>
   (iso8601_duration_to_minutes maxd d = Inr n \<and> n \<noteq> 0 \<longrightarrow>
      segment_duration maxd (Some d) dep arr = Inr n)"
proof -
  have ex: "iso8601_duration_to_minutes maxd ''PT11H5M'' = Inr 665"
    using iso_hours_minutes [OF digit_run_small(1) digit_run_small(2), of maxd]
    by (simp add: digits_value_small)
  have zero: "iso8601_duration_to_minutes maxd ''PT0M'' = Inr 0"
    using iso_minutes_only [OF digit_run_small(3), of maxd]
    by (simp add: digits_value_small)
  show ?thesis
    using iso_hours_minutes iso_hours_only iso_minutes_only iso_neither ex zero
    by (simp add: segment_duration_def)
qed

theorem iso8601_duration_cases_witness:
  "digit_run 4300 ''11'' \<and> digit_run 4300 ''5'' \<and>
   iso8601_duration_to_minutes 4300 ''PT11H5M'' = Inr 665 \<and>
   iso8601_duration_to_minutes 4300 ''PT11H'' = Inr 660 \<and>
   iso8601_duration_to_minutes 4300 ''PT5M'' = Inr 5 \<and>
   iso8601_duration_to_minutes 4300 ''PT0M'' = Inr 0 \<and>
   segment_duration 4300 (Some ''PT0M'') (naive_datetime 2025 12 30 14 10)
       (naive_datetime 2025 12 31 6 25) = Inr 975 \<and>
   segment_duration 4300 (Some ''PT11H5M'') (naive_datetime 2025 12 30 14 10)
       (naive_datetime 2025 12 31 6 25) = Inr 665"
proof -
  let ?dep = "naive_datetime 2025 12 30 14 10" and ?arr = "naive_datetime 2025 12 31 6 25"
  have diff: "floor_minutes (timedelta_us ?arr ?dep) = 975"
    by (simp add: floor_minutes_def timedelta_us_def naive_us_def naive_datetime_def mk_date_def
        mk_time_def ymd2ord_def days_before_year_def days_before_month_def is_leap_def)
  have zero: "iso8601_duration_to_minutes 4300 ''PT0M'' = Inr 0"
    using iso8601_duration_cases [of 4300 "''0''" "''0''"]
    by (simp add: digit_run_small digits_value_small)
  have a: "digit_run 4300 ''11'' \<and> digit_run 4300 ''5''"
    by (simp add: digit_run_small)
  have nz: "(665 :: int) \<noteq> 0" by simp
  note i1 = iso8601_duration_cases [of 4300 "''11''" "''5''" "''PT0M''" ?dep ?arr 665]
  note i2 = iso8601_duration_cases [of 4300 "''11''" "''5''" "''PT11H5M''" ?dep ?arr 665]
  from i1 a have b: "iso8601_duration_to_minutes 4300 ''PT11H5M'' = Inr 665"
    "iso8601_duration_to_minutes 4300 ''PT11H'' = Inr 660"
    "iso8601_duration_to_minutes 4300 ''PT5M'' = Inr 5"
    by (simp_all add: digits_value_small)
  from i1 zero have c: "segment_duration 4300 (Some ''PT0M'') ?dep ?arr = Inr 975"
    by (simp add: diff)
  from i2 b(1) nz have d: "segment_duration 4300 (Some ''PT11H5M'') ?dep ?arr = Inr 665"
    by blast
  show ?thesis using a b c d zero by blast
qed

section \<open>The price boundary\<close>







end
